theory Spec2Isabelle
  imports Complex_Main
begin

section \<open>The SCVI model class of the annotated notebook\<close>

text \<open>
  The notebook \<^verbatim>\<open>scvi_annotated.ipynb\<close> defines one class, \<^verbatim>\<open>SCVI\<close>, with a
  constructor and the class method \<^verbatim>\<open>setup_anndata\<close>, and ends with a five-line usage
  script. Everything else it names (the dataset, the field classes, the manager of a
  registration, the base classes and mixins, the numerical module \<^verbatim>\<open>VAE\<close>) is imported
  from the library the notebook annotates. The two methods are embedded here as they are
  written; what they call in the library is either a parameter of the embedding (the
  record \<open>library\<close>) or a definition whose comment says where it comes from.
\<close>

subsection \<open>Python values, keyword arguments, exceptions\<close>

text \<open>
  Python is dynamically typed: the annotations of the constructor's parameters are not
  enforced, so an argument is a value of any kind. A float literal is read as the real
  it denotes (no arithmetic is done on one here), a numpy array as its rows.
\<close>

datatype pyval =
    PyNone
  | PyBool bool
  | PyInt int
  | PyFloat real
  | PyStr string
  | PyList "pyval list"
  | PyArray "real list list"

type_synonym kwargs = "string \<rightharpoonup> pyval"

datatype error =
    TypeError string
  | AttributeError string
  | ValueError string
  | ConfigurationError string
  | RegistrationError string
  | NotTrainedError

text \<open>
  A parameter with a default: the keyword's value when the call gives it, the default
  otherwise.
\<close>

definition param :: "kwargs \<Rightarrow> string \<Rightarrow> pyval \<Rightarrow> pyval" where
  "param kw name dflt = (case kw name of None \<Rightarrow> dflt | Some v \<Rightarrow> v)"

text \<open>
  A call \<^verbatim>\<open>f(k1=v1, ..., **extra)\<close>: Python raises \<^verbatim>\<open>TypeError\<close> (multiple values
  for a keyword argument) when \<^verbatim>\<open>extra\<close> repeats one of the keywords written out, and
  passes the union otherwise.
\<close>

definition call_kwargs :: "(string \<times> pyval) list \<Rightarrow> kwargs \<Rightarrow> error + kwargs" where
  "call_kwargs explicit extra =
     (case filter (\<lambda>(k, v). extra k \<noteq> None) explicit of
        [] \<Rightarrow> Inr (map_of explicit ++ extra)
      | (k, v) # rest \<Rightarrow> Inl (TypeError k))"

subsection \<open>The library's data: dataset, fields, manager\<close>

text \<open>
  \<^verbatim>\<open>REGISTRY_KEYS\<close> and \<^verbatim>\<open>ADATA_MINIFY_TYPE\<close> are constants of the library; the
  notebook uses the members below. Their string values are not in the notebook, so each
  is an enumeration whose members are distinct.
\<close>

datatype registry_key =
    X_KEY
  | BATCH_KEY
  | LABELS_KEY
  | SIZE_FACTOR_KEY
  | CAT_COVS_KEY
  | CONT_COVS_KEY
  | OTHER_KEY string

datatype adata_minify_type = LATENT_POSTERIOR | OTHER_MINIFY_TYPE string

text \<open>
  The dataset (\<^verbatim>\<open>AnnData\<close>) is opaque to the notebook. The embedding keeps what the
  properties below read: the identity of the object, the number of observations, and
  the minification marker that \<^verbatim>\<open>_get_adata_minify_type\<close> returns.
\<close>

record anndata =
  adata_id :: nat
  n_obs :: nat
  uns_minify_type :: "adata_minify_type option"

definition get_adata_minify_type :: "anndata \<Rightarrow> adata_minify_type option" where
  "get_adata_minify_type ad = uns_minify_type ad"

text \<open>
  The field declarations, one constructor per field class, with the arguments
  \<^verbatim>\<open>setup_anndata\<close> passes: the registry key, the source (a layer, a column, a list of
  columns, or \<^verbatim>\<open>None\<close>) and the flag where the call gives one (\<^verbatim>\<open>is_count_data\<close> for
  the layer, \<^verbatim>\<open>required\<close> for the size factor).
\<close>

datatype field =
    LayerField registry_key "string option" bool
  | CategoricalObsField registry_key "string option"
  | NumericalObsField registry_key "string option" bool
  | CategoricalJointObsField registry_key "string list option"
  | NumericalJointObsField registry_key "string list option"

text \<open>The arguments of \<^verbatim>\<open>setup_anndata\<close> after the dataset.\<close>

record setup_args =
  layer :: "string option"
  batch_key :: "string option"
  labels_key :: "string option"
  size_factor_key :: "string option"
  categorical_covariate_keys :: "string list option"
  continuous_covariate_keys :: "string list option"
  setup_kwargs :: kwargs

text \<open>
  What the constructor reads of a manager (\<^verbatim>\<open>AnnDataManager\<close>): the keys of its data
  registry, the state registry of a key with its \<^verbatim>\<open>n_cats_per_key\<close>, and the summary
  statistics. \<^verbatim>\<open>n_vars\<close>, \<^verbatim>\<open>n_batch\<close> and \<^verbatim>\<open>n_labels\<close> are read as attributes, so
  they are fields; \<^verbatim>\<open>n_extra_continuous_covs\<close> is read with \<^verbatim>\<open>.get(..., 0)\<close>, so it
  may be absent. \<open>mgr_minified_data_type\<close> is the value the model's property
  \<^verbatim>\<open>minified_data_type\<close> reads from the registration.
\<close>

record summary_stats =
  n_vars :: nat
  n_batch :: nat
  n_labels :: nat
  n_extra_continuous_covs :: "nat option"

record state_registry =
  n_cats_per_key :: "nat list"

record anndata_manager =
  mgr_fields :: "field list"
  setup_method_args :: setup_args
  data_registry :: "registry_key set"
  get_state_registry :: "registry_key \<Rightarrow> state_registry"
  summary_stats :: summary_stats
  mgr_minified_data_type :: "adata_minify_type option"

text \<open>
  The class-level store of managers, one per registered dataset.
\<close>

type_synonym manager_store = "nat \<rightharpoonup> anndata_manager"

subsection \<open>The numerical module and the model instance\<close>

text \<open>
  The module class \<^verbatim>\<open>VAE\<close> is the library's. A module is identified with the keyword
  arguments it was constructed from, together with the attribute the constructor of
  \<^verbatim>\<open>SCVI\<close> sets on it afterwards. What the module computes is outside the notebook;
  that the module class can reject its arguments is part of the library below.
\<close>

record vae =
  init_args :: kwargs
  vae_minified_data_type :: "adata_minify_type option"

record scvi_model =
  adata :: "anndata option"
  adata_manager :: "anndata_manager option"
  module_init_on_train :: bool
  module_kwargs :: kwargs
  model_summary_string :: string
  module :: "vae option"
  init_params :: "kwargs \<times> kwargs"
  is_trained :: bool

text \<open>
  What a call of the constructor does besides returning: the warnings it emits, its call
  of \<^verbatim>\<open>_init_library_size\<close>, its call of the module class.
\<close>

datatype event = UserWarning string | LibrarySizeInit | ModuleConstructed

text \<open>
  The library functions the two methods call and the notebook does not define:
  the fields added for a minified dataset, the registration of the fields on a dataset
  (it fails with the role or column it rejects), the library-size prior computed from
  the count matrix, the exception the module class raises for the keyword arguments of
  a call (\<^verbatim>\<open>None\<close> when it accepts them and returns a module), Python's \<^verbatim>\<open>str\<close> of
  a value inside an f-string, and the encoder of a trained module (row \<open>i\<close>, column
  \<open>j\<close> of the embedding).
\<close>

record library =
  get_fields_for_adata_minification :: "adata_minify_type \<Rightarrow> field list"
  register_fields :: "anndata_manager \<Rightarrow> anndata \<Rightarrow> kwargs \<Rightarrow> string + anndata_manager"
  init_library_size :: "anndata_manager \<Rightarrow> nat \<Rightarrow> real list list \<times> real list list"
  module_cls_error :: "kwargs \<Rightarrow> error option"
  py_str :: "pyval \<Rightarrow> string"
  encode :: "vae \<Rightarrow> anndata \<Rightarrow> nat \<Rightarrow> nat \<Rightarrow> real"

subsection \<open>Library operations the notebook relies on\<close>

text \<open>
  The constructor \<^verbatim>\<open>AnnDataManager(fields=..., setup_method_args=...)\<close>: a manager that
  holds the declarations and nothing registered yet.
\<close>

definition AnnDataManager :: "field list \<Rightarrow> setup_args \<Rightarrow> anndata_manager" where
  "AnnDataManager flds args =
     \<lparr> mgr_fields = flds,
       setup_method_args = args,
       data_registry = {},
       get_state_registry = (\<lambda>k. \<lparr> n_cats_per_key = [] \<rparr>),
       summary_stats =
         \<lparr> n_vars = 0, n_batch = 0, n_labels = 0, n_extra_continuous_covs = None \<rparr>,
       mgr_minified_data_type = None \<rparr>"

text \<open>
  Modelled from the spec: \<^verbatim>\<open>register_manager\<close> is a class method of the library's base
  class, not defined in the notebook. The spec has a successful registration persist the
  mapping "associated with this dataset instance for later retrieval by the model"; the
  store is keyed by the identity of the dataset.
\<close>

definition register_manager ::
  "manager_store \<Rightarrow> anndata \<Rightarrow> anndata_manager \<Rightarrow> manager_store" where
  "register_manager store ad mgr = store(adata_id ad \<mapsto> mgr)"

text \<open>
  Modelled from the spec: the constructor of the base classes (\<^verbatim>\<open>super().__init__(adata)\<close>)
  is the library's, not defined in the notebook. The notebook's comments say that the
  model delays the initialisation of its module exactly when \<^verbatim>\<open>adata\<close> is not provided
  (this is the flag \<^verbatim>\<open>_module_init_on_train\<close>), and its docstring asks for a dataset
  "that has been registered via setup_anndata"; the spec has the construction with a
  dataset that was never registered fail with a configuration error, and the model
  retrieve the mapping the registration stored. A new instance holds no module and is
  not trained.
\<close>

definition new_instance ::
  "anndata option \<Rightarrow> anndata_manager option \<Rightarrow> bool \<Rightarrow> scvi_model" where
  "new_instance d mgr deferred =
     \<lparr> adata = d,
       adata_manager = mgr,
       module_init_on_train = deferred,
       module_kwargs = Map.empty,
       model_summary_string = [],
       module = None,
       init_params = (Map.empty, Map.empty),
       is_trained = False \<rparr>"

definition base_init :: "manager_store \<Rightarrow> anndata option \<Rightarrow> error + scvi_model" where
  "base_init store adata_arg =
     (case adata_arg of
        None \<Rightarrow> Inr (new_instance None None True)
      | Some d \<Rightarrow>
          (case store (adata_id d) of
             None \<Rightarrow> Inl (ConfigurationError ''setup_anndata'')
           | Some mgr \<Rightarrow> Inr (new_instance (Some d) (Some mgr) False)))"

text \<open>
  The property \<^verbatim>\<open>minified_data_type\<close> of the model (of the library's
  \<^verbatim>\<open>BaseMinifiedModeModelClass\<close>): what the registration of the model's dataset
  recorded, \<^verbatim>\<open>None\<close> for a model without one.
\<close>

definition minified_data_type :: "scvi_model \<Rightarrow> adata_minify_type option" where
  "minified_data_type self =
     (case adata_manager self of None \<Rightarrow> None | Some mgr \<Rightarrow> mgr_minified_data_type mgr)"

subsection \<open>The class method \<^verbatim>\<open>setup_anndata\<close>\<close>

text \<open>The list \<^verbatim>\<open>anndata_fields\<close>, in the order of the source.\<close>

definition anndata_fields :: "setup_args \<Rightarrow> field list" where
  "anndata_fields a =
     [ LayerField X_KEY (layer a) True,
       CategoricalObsField BATCH_KEY (batch_key a),
       CategoricalObsField LABELS_KEY (labels_key a),
       NumericalObsField SIZE_FACTOR_KEY (size_factor_key a) False,
       CategoricalJointObsField CAT_COVS_KEY (categorical_covariate_keys a),
       NumericalJointObsField CONT_COVS_KEY (continuous_covariate_keys a) ]"

text \<open>
  The manager the method builds before anything is registered: the six fields, the
  fields of the minification when the dataset is minified, and the arguments of the
  call (\<^verbatim>\<open>_get_setup_method_args(**locals())\<close>).
\<close>

definition new_manager :: "library \<Rightarrow> anndata \<Rightarrow> setup_args \<Rightarrow> anndata_manager" where
  "new_manager lib ad a =
     (let setup_method_args' = a;
          flds = anndata_fields a;
          adata_minify_type' = get_adata_minify_type ad;
          flds' = (case adata_minify_type' of
                     None \<Rightarrow> flds
                   | Some t \<Rightarrow> flds @ get_fields_for_adata_minification lib t)
      in AnnDataManager flds' setup_method_args')"

text \<open>
  The method returns nothing: its effect is on the store of managers. The result is the
  outcome (an exception or \<^verbatim>\<open>None\<close>) and the store after the call. The exception of
  \<^verbatim>\<open>register_fields\<close> is not caught, so it leaves the method before
  \<^verbatim>\<open>register_manager\<close> is reached.
\<close>

definition setup_anndata ::
  "library \<Rightarrow> manager_store \<Rightarrow> anndata \<Rightarrow> setup_args \<Rightarrow> (error + unit) \<times> manager_store" where
  "setup_anndata lib store ad a =
     (let mgr = new_manager lib ad a in
      case register_fields lib mgr ad (setup_kwargs a) of
        Inl name \<Rightarrow> (Inl (RegistrationError name), store)
      | Inr mgr' \<Rightarrow> (Inr (), register_manager store ad mgr'))"

subsection \<open>The constructor \<^verbatim>\<open>SCVI.__init__\<close>\<close>

text \<open>
  A call of the constructor is the dataset (or \<^verbatim>\<open>None\<close>) and the keyword arguments
  given for the other parameters (an argument given by position is bound like one given
  by the name of its parameter). Python binds a keyword that names a parameter to that
  parameter, and collects the others in \<^verbatim>\<open>kwargs\<close>.
\<close>

definition init_param_names :: "string list" where
  "init_param_names =
     [''n_hidden'', ''n_latent'', ''n_layers'', ''dropout_rate'', ''dispersion'',
      ''gene_likelihood'', ''latent_distribution'']"

definition extra_kwargs :: "kwargs \<Rightarrow> kwargs" where
  "extra_kwargs kw = (\<lambda>k. if k \<in> set init_param_names then None else kw k)"

text \<open>The seven parameters as the constructor's body sees them, defaults applied.\<close>

definition named_params :: "kwargs \<Rightarrow> (string \<times> pyval) list" where
  "named_params kw =
     [ (''n_hidden'', param kw ''n_hidden'' (PyInt 128)),
       (''n_latent'', param kw ''n_latent'' (PyInt 10)),
       (''n_layers'', param kw ''n_layers'' (PyInt 1)),
       (''dropout_rate'', param kw ''dropout_rate'' (PyFloat 0.1)),
       (''dispersion'', param kw ''dispersion'' (PyStr ''gene'')),
       (''gene_likelihood'', param kw ''gene_likelihood'' (PyStr ''zinb'')),
       (''latent_distribution'', param kw ''latent_distribution'' (PyStr ''normal'')) ]"

definition init_without_adata_warning :: string where
  "init_without_adata_warning =
     ''Model was initialized without `adata`. The module will be initialized when '' @
     ''calling `train`. This behavior is experimental and may change in the future.''"

definition summary_string :: "library \<Rightarrow> kwargs \<Rightarrow> string" where
  "summary_string lib kw =
     ''SCVI model with the following parameters: '' @ [CHR 0x0A] @
     ''n_hidden: '' @ py_str lib (param kw ''n_hidden'' (PyInt 128)) @
     '', n_latent: '' @ py_str lib (param kw ''n_latent'' (PyInt 10)) @
     '', n_layers: '' @ py_str lib (param kw ''n_layers'' (PyInt 1)) @ '', '' @
     ''dropout_rate: '' @ py_str lib (param kw ''dropout_rate'' (PyFloat 0.1)) @
     '', dispersion: '' @ py_str lib (param kw ''dispersion'' (PyStr ''gene'')) @ '', '' @
     ''gene_likelihood: '' @ py_str lib (param kw ''gene_likelihood'' (PyStr ''zinb'')) @
     '', latent_distribution: '' @
       py_str lib (param kw ''latent_distribution'' (PyStr ''normal'')) @ ''.''"

text \<open>
  The keywords the constructor writes out in its call of the module class, in the
  order of the source, from the summary statistics of the manager and the values
  computed before the call.
\<close>

definition module_call_keywords ::
  "anndata_manager \<Rightarrow> kwargs \<Rightarrow> pyval \<Rightarrow> bool \<Rightarrow> pyval \<Rightarrow> pyval \<Rightarrow> (string \<times> pyval) list" where
  "module_call_keywords mgr kw n_cats_per_cov use_size_factor_key library_log_means
       library_log_vars =
     [ (''n_input'', PyInt (int (n_vars (summary_stats mgr)))),
       (''n_batch'', PyInt (int (n_batch (summary_stats mgr)))),
       (''n_labels'', PyInt (int (n_labels (summary_stats mgr)))),
       (''n_continuous_cov'',
          PyInt (int (case n_extra_continuous_covs (summary_stats mgr) of
                        None \<Rightarrow> 0 | Some n \<Rightarrow> n))),
       (''n_cats_per_cov'', n_cats_per_cov) ] @
     named_params kw @
     [ (''use_size_factor_key'', PyBool use_size_factor_key),
       (''library_log_means'', library_log_means),
       (''library_log_vars'', library_log_vars) ]"

text \<open>
  Of these keywords, the ones that are not parameters of the constructor itself: a
  caller can put them among the extra keywords of a call.
\<close>

definition module_own_keywords :: "string list" where
  "module_own_keywords =
     [''n_input'', ''n_batch'', ''n_labels'', ''n_continuous_cov'', ''n_cats_per_cov'',
      ''use_size_factor_key'', ''library_log_means'', ''library_log_vars'']"

text \<open>
  The constructor. Its result is the exception it raises or the instance, with the
  events up to there. The call of the module class raises \<^verbatim>\<open>TypeError\<close> on a repeated
  keyword, or what the module class raises for the arguments it is passed; neither is
  caught. The record of the call (\<^verbatim>\<open>init_params_\<close>, computed by the library from
  \<^verbatim>\<open>locals()\<close>) is kept as the named parameters and the extra keywords.
\<close>

definition SCVI_init ::
  "library \<Rightarrow> manager_store \<Rightarrow> anndata option \<Rightarrow> kwargs \<Rightarrow> (error + scvi_model) \<times> event list" where
  "SCVI_init lib store adata_arg kw =
     (case base_init store adata_arg of
        Inl e \<Rightarrow> (Inl e, [])
      | Inr self0 \<Rightarrow>
          (let kwargs' = extra_kwargs kw;
               self1 = self0
                 \<lparr> module_kwargs := map_of (named_params kw) ++ kwargs',
                   model_summary_string := summary_string lib kw \<rparr>
           in
             if module_init_on_train self1 then
               (Inr (self1 \<lparr> module := None,
                            init_params := (map_of (named_params kw), kwargs') \<rparr>),
                [UserWarning init_without_adata_warning])
             else
               (case adata_manager self1 of
                  None \<Rightarrow> (Inl (AttributeError ''adata_manager''), [])
                | Some mgr \<Rightarrow>
                    (let n_cats_per_cov =
                           (if CAT_COVS_KEY \<in> data_registry mgr
                            then PyList (map (\<lambda>n. PyInt (int n))
                                   (n_cats_per_key (get_state_registry mgr CAT_COVS_KEY)))
                            else PyNone);
                         n_batch' = n_batch (summary_stats mgr);
                         use_size_factor_key = (SIZE_FACTOR_KEY \<in> data_registry mgr);
                         init_library = (\<not> use_size_factor_key \<and>
                            minified_data_type self1 \<noteq> Some LATENT_POSTERIOR);
                         (library_log_means, library_log_vars) =
                           (if init_library
                            then (case init_library_size lib mgr n_batch' of
                                    (means, vars) \<Rightarrow> (PyArray means, PyArray vars))
                            else (PyNone, PyNone));
                         evs = (if init_library then [LibrarySizeInit] else [])
                     in
                       case call_kwargs
                              (module_call_keywords mgr kw n_cats_per_cov use_size_factor_key
                                 library_log_means library_log_vars)
                              kwargs' of
                         Inl e \<Rightarrow> (Inl e, evs)
                       | Inr args \<Rightarrow>
                           (case module_cls_error lib args of
                              Some e \<Rightarrow> (Inl e, evs)
                            | None \<Rightarrow>
                                (Inr (self1
                                        \<lparr> module := Some \<lparr> init_args = args,
                                             vae_minified_data_type =
                                               minified_data_type self1 \<rparr>,
                                          init_params :=
                                            (map_of (named_params kw), kwargs') \<rparr>),
                                 evs @ [ModuleConstructed]))))))"

text \<open>
  The keyword arguments the module class receives from the constructor for a dataset
  registered with the manager \<open>mgr\<close>, when no keyword is repeated: the values of the
  constructor's local variables in terms of the manager, and the extra keywords.
\<close>

definition module_call_args :: "library \<Rightarrow> anndata_manager \<Rightarrow> kwargs \<Rightarrow> kwargs" where
  "module_call_args lib mgr kw =
     (let n_cats_per_cov =
            (if CAT_COVS_KEY \<in> data_registry mgr
             then PyList (map (\<lambda>n. PyInt (int n))
                    (n_cats_per_key (get_state_registry mgr CAT_COVS_KEY)))
             else PyNone);
          use_size_factor_key = (SIZE_FACTOR_KEY \<in> data_registry mgr);
          init_library = (\<not> use_size_factor_key \<and>
             mgr_minified_data_type mgr \<noteq> Some LATENT_POSTERIOR);
          prior = init_library_size lib mgr (n_batch (summary_stats mgr))
      in map_of
           (module_call_keywords mgr kw n_cats_per_cov use_size_factor_key
              (if init_library then PyArray (fst prior) else PyNone)
              (if init_library then PyArray (snd prior) else PyNone))
         ++ extra_kwargs kw)"

text \<open>
  A value is recorded for a parameter when the instance stores it under the parameter's
  name in \<^verbatim>\<open>_module_kwargs\<close> and its module, if it has one, was constructed with it.
\<close>

definition stored_and_forwarded :: "scvi_model \<Rightarrow> string \<Rightarrow> pyval \<Rightarrow> bool" where
  "stored_and_forwarded self name v \<longleftrightarrow>
     module_kwargs self name = Some v \<and>
     (case module self of None \<Rightarrow> True | Some m \<Rightarrow> init_args m name = Some v)"

subsection \<open>Training and the extraction of the embedding\<close>

text \<open>
  Modelled from the spec: \<^verbatim>\<open>train\<close> is a method of the library's training mixin, not
  defined in the notebook, which only calls it. The spec has a training call perform the
  deferred construction first when the build was deferred ("from configuration + these
  statistics"; the statistics come with the call, since such a model holds no dataset),
  and proceed directly otherwise; afterwards the model is trained.
\<close>

definition train :: "summary_stats option \<Rightarrow> scvi_model \<Rightarrow> error + scvi_model" where
  "train datamodule self =
     (if module_init_on_train self then
        (case datamodule of
           None \<Rightarrow> Inl (ValueError ''datamodule'')
         | Some st \<Rightarrow>
             (case call_kwargs
                     [ (''n_input'', PyInt (int (n_vars st))),
                       (''n_batch'', PyInt (int (n_batch st))),
                       (''n_labels'', PyInt (int (n_labels st))) ]
                     (module_kwargs self) of
                Inl e \<Rightarrow> Inl e
              | Inr args \<Rightarrow>
                  Inr (self \<lparr> module := Some \<lparr> init_args = args,
                                 vae_minified_data_type = minified_data_type self \<rparr>,
                              module_init_on_train := False,
                              is_trained := True \<rparr>)))
      else Inr (self \<lparr> is_trained := True \<rparr>))"

text \<open>
  Modelled from the spec: \<^verbatim>\<open>get_latent_representation\<close> is a method of the library's
  mixins, not defined in the notebook, which only calls it. The spec has it fail before
  training and return, after training, one row per observation of the dataset and one
  column per latent dimension the module was configured with. The entries are the
  encoder's. The dataset is the one given, or the model's own.
\<close>

definition get_latent_representation ::
  "library \<Rightarrow> scvi_model \<Rightarrow> anndata option \<Rightarrow> error + real list list" where
  "get_latent_representation lib self adata_arg =
     (if \<not> is_trained self then Inl NotTrainedError
      else
        (case module self of
           None \<Rightarrow> Inl NotTrainedError
         | Some m \<Rightarrow>
             (case (case adata_arg of None \<Rightarrow> adata self | Some d \<Rightarrow> Some d) of
                None \<Rightarrow> Inl (ValueError ''adata'')
              | Some d \<Rightarrow>
                  (case init_args m ''n_latent'' of
                     Some (PyInt k) \<Rightarrow>
                       if 0 \<le> k
                       then Inr (map (\<lambda>i. map (\<lambda>j. encode lib m d i j) [0..<nat k])
                                  [0..<n_obs d])
                       else Inl (ValueError ''n_latent'')
                   | _ \<Rightarrow> Inl (TypeError ''n_latent'')))))"

subsection \<open>Sequences of operations\<close>

text \<open>
  Registrations one after the other, each on the store the one before left.
\<close>

fun register_all ::
  "library \<Rightarrow> manager_store \<Rightarrow> (anndata \<times> setup_args) list \<Rightarrow> manager_store" where
  "register_all lib store [] = store"
| "register_all lib store ((d, a) # rest) =
     register_all lib (snd (setup_anndata lib store d a)) rest"

text \<open>
  A registration does not register the dataset \<open>d\<close> when it is of another dataset,
  or when the registration of its fields fails.
\<close>

definition leaves_unregistered :: "library \<Rightarrow> anndata \<Rightarrow> anndata \<times> setup_args \<Rightarrow> bool" where
  "leaves_unregistered lib d r =
     (case r of (d', a) \<Rightarrow>
        adata_id d' \<noteq> adata_id d \<or>
        isl (register_fields lib (new_manager lib d' a) d' (setup_kwargs a)))"




subsection \<open>An example\<close>

text \<open>
  After the scenario of the spec: a dataset of 500 observations and 2000 features whose
  column \<^verbatim>\<open>batch\<close> has three values, registered with \<^verbatim>\<open>batch_key="batch"\<close> and a
  label column of four values, and a library that accepts exactly the declarations whose
  batch column is \<^verbatim>\<open>batch\<close> and rejects the others by the name of the column, or of
  the role when none is given. The theorems below are evaluated on it.
\<close>

definition example_adata :: anndata where
  "example_adata = \<lparr> adata_id = 1, n_obs = 500, uns_minify_type = None \<rparr>"

definition example_args :: setup_args where
  "example_args =
     \<lparr> layer = None, batch_key = Some ''batch'', labels_key = Some ''cell_type'',
       size_factor_key = None, categorical_covariate_keys = None,
       continuous_covariate_keys = None, setup_kwargs = Map.empty \<rparr>"

definition example_register_fields ::
  "anndata_manager \<Rightarrow> anndata \<Rightarrow> kwargs \<Rightarrow> string + anndata_manager" where
  "example_register_fields mgr d kw =
     (case batch_key (setup_method_args mgr) of
        None \<Rightarrow> Inl ''batch''
      | Some c \<Rightarrow>
          if c = ''batch''
          then Inr (mgr \<lparr> data_registry := {X_KEY, BATCH_KEY, LABELS_KEY},
                           summary_stats :=
                             \<lparr> n_vars = 2000, n_batch = 3, n_labels = 4,
                               n_extra_continuous_covs = None \<rparr> \<rparr>)
          else Inl c)"

text \<open>
  The module class of the example accepts the arguments whose latent dimensionality is a
  positive integer.
\<close>

definition example_module_cls_error :: "kwargs \<Rightarrow> error option" where
  "example_module_cls_error args =
     (case args ''n_latent'' of
        Some (PyInt k) \<Rightarrow> if 0 < k then None else Some (ValueError ''n_latent'')
      | _ \<Rightarrow> Some (TypeError ''n_latent''))"

definition example_library :: library where
  "example_library =
     \<lparr> get_fields_for_adata_minification = (\<lambda>t. []),
       register_fields = example_register_fields,
       init_library_size = (\<lambda>mgr n. (replicate n [0], replicate n [1])),
       module_cls_error = example_module_cls_error,
       py_str = (\<lambda>v. ''?''),
       encode = (\<lambda>m d i j. 0) \<rparr>"

definition example_store :: manager_store where
  "example_store = snd (setup_anndata example_library Map.empty example_adata example_args)"

text \<open>The manager the example library returns for the example registration.\<close>

definition example_manager :: anndata_manager where
  "example_manager =
     (AnnDataManager (anndata_fields example_args) example_args)
       \<lparr> data_registry := {X_KEY, BATCH_KEY, LABELS_KEY},
         summary_stats := \<lparr> n_vars = 2000, n_batch = 3, n_labels = 4,
                            n_extra_continuous_covs = None \<rparr> \<rparr>"


section \<open>Keyword calls\<close>

text \<open>
  A call with extra keywords succeeds exactly when none of them repeats a keyword that
  is written out, and then passes both.
\<close>

lemma call_kwargs_Inr_iff:
  "call_kwargs explicit extra = Inr args \<longleftrightarrow>
     (\<forall>k \<in> fst ` set explicit. extra k = None) \<and> args = map_of explicit ++ extra"
proof -
  have "filter (\<lambda>(k, v). extra k \<noteq> None) explicit = [] \<longleftrightarrow>
          (\<forall>k \<in> fst ` set explicit. extra k = None)"
    by (auto simp add: filter_empty_conv)
  then show ?thesis
    by (auto simp add: call_kwargs_def split: list.splits)
qed

lemma extra_kwargs_named [simp]:
  "name \<in> set init_param_names \<Longrightarrow> extra_kwargs kw name = None"
  by (simp add: extra_kwargs_def)

lemma extra_kwargs_other [simp]:
  "name \<notin> set init_param_names \<Longrightarrow> extra_kwargs kw name = kw name"
  by (simp add: extra_kwargs_def)

lemma named_params_lookup:
  "map_of (named_params kw) ''n_hidden'' = Some (param kw ''n_hidden'' (PyInt 128))"
  "map_of (named_params kw) ''n_latent'' = Some (param kw ''n_latent'' (PyInt 10))"
  "map_of (named_params kw) ''n_layers'' = Some (param kw ''n_layers'' (PyInt 1))"
  "map_of (named_params kw) ''dropout_rate'' = Some (param kw ''dropout_rate'' (PyFloat 0.1))"
  "map_of (named_params kw) ''dispersion'' = Some (param kw ''dispersion'' (PyStr ''gene''))"
  "map_of (named_params kw) ''gene_likelihood'' =
     Some (param kw ''gene_likelihood'' (PyStr ''zinb''))"
  "map_of (named_params kw) ''latent_distribution'' =
     Some (param kw ''latent_distribution'' (PyStr ''normal''))"
  by (simp_all add: named_params_def)

text \<open>The keywords the constructor writes out in its call of the module class.\<close>

lemma module_call_keywords_keys:
  "map fst (module_call_keywords mgr kw a b c e) =
     [''n_input'', ''n_batch'', ''n_labels'', ''n_continuous_cov'', ''n_cats_per_cov'',
      ''n_hidden'', ''n_latent'', ''n_layers'', ''dropout_rate'', ''dispersion'',
      ''gene_likelihood'', ''latent_distribution'',
      ''use_size_factor_key'', ''library_log_means'', ''library_log_vars'']"
  by (simp add: module_call_keywords_def named_params_def)

lemma no_clash_iff:
  "(\<forall>k \<in> fst ` set (module_call_keywords mgr kw a b c e). extra_kwargs kw k = None) \<longleftrightarrow>
   (\<forall>k \<in> set module_own_keywords. kw k = None)"
proof -
  have "(\<forall>k \<in> fst ` set (module_call_keywords mgr kw a b c e). extra_kwargs kw k = None) \<longleftrightarrow>
        (\<forall>k \<in> set (map fst (module_call_keywords mgr kw a b c e)). extra_kwargs kw k = None)"
    by simp
  also have "\<dots> \<longleftrightarrow> (\<forall>k \<in> set module_own_keywords. kw k = None)"
    unfolding module_call_keywords_keys
    by (simp add: extra_kwargs_def init_param_names_def module_own_keywords_def)
  finally show ?thesis .
qed

lemma module_call_keywords_named_all:
  "\<forall>name \<in> set init_param_names.
     map_of (module_call_keywords mgr kw a b c e) name = map_of (named_params kw) name"
  by (simp add: module_call_keywords_def named_params_def init_param_names_def)

lemma module_call_keywords_named:
  assumes "name \<in> set init_param_names"
  shows "map_of (module_call_keywords mgr kw a b c e) name = map_of (named_params kw) name"
  using assms module_call_keywords_named_all by blast

lemma module_call_keywords_other:
  assumes "k \<notin> set module_own_keywords" "k \<notin> set init_param_names"
  shows "map_of (module_call_keywords mgr kw a b c e) k = None"
  using assms
  by (simp add: module_call_keywords_def named_params_def init_param_names_def
      module_own_keywords_def)

lemma module_call_keywords_own:
  "map_of (module_call_keywords mgr kw a b c e) ''n_input'' =
     Some (PyInt (int (n_vars (summary_stats mgr))))"
  "map_of (module_call_keywords mgr kw a b c e) ''n_batch'' =
     Some (PyInt (int (n_batch (summary_stats mgr))))"
  "map_of (module_call_keywords mgr kw a b c e) ''n_labels'' =
     Some (PyInt (int (n_labels (summary_stats mgr))))"
  "map_of (module_call_keywords mgr kw a b c e) ''n_continuous_cov'' =
     Some (PyInt (int (case n_extra_continuous_covs (summary_stats mgr) of
                         None \<Rightarrow> 0 | Some n \<Rightarrow> n)))"
  "map_of (module_call_keywords mgr kw a b c e) ''n_cats_per_cov'' = Some a"
  "map_of (module_call_keywords mgr kw a b c e) ''use_size_factor_key'' = Some (PyBool b)"
  "map_of (module_call_keywords mgr kw a b c e) ''library_log_means'' = Some c"
  "map_of (module_call_keywords mgr kw a b c e) ''library_log_vars'' = Some e"
  by (simp_all add: module_call_keywords_def named_params_def)

lemma own_keyword_free:
  assumes "\<forall>k \<in> set module_own_keywords. kw k = None"
  shows "extra_kwargs kw ''n_input'' = None" "extra_kwargs kw ''n_batch'' = None"
    "extra_kwargs kw ''n_labels'' = None" "extra_kwargs kw ''n_continuous_cov'' = None"
    "extra_kwargs kw ''n_cats_per_cov'' = None" "extra_kwargs kw ''use_size_factor_key'' = None"
    "extra_kwargs kw ''library_log_means'' = None" "extra_kwargs kw ''library_log_vars'' = None"
  using assms by (simp_all add: extra_kwargs_def module_own_keywords_def)

lemma call_kwargs_module_ok:
  assumes "\<forall>k \<in> set module_own_keywords. kw k = None"
  shows "call_kwargs (module_call_keywords mgr kw a b c e) (extra_kwargs kw) =
           Inr (map_of (module_call_keywords mgr kw a b c e) ++ extra_kwargs kw)"
proof -
  from assms
  have "\<forall>k \<in> fst ` set (module_call_keywords mgr kw a b c e). extra_kwargs kw k = None"
    by (simp only: no_clash_iff)
  then show ?thesis
    by (simp only: call_kwargs_Inr_iff simp_thms)
qed

lemma call_kwargs_module_args:
  assumes "call_kwargs (module_call_keywords mgr kw a b c e) (extra_kwargs kw) = Inr args"
  shows "args ''library_log_means'' = Some c \<and> args ''library_log_vars'' = Some e"
proof -
  from assms [unfolded call_kwargs_Inr_iff]
  have clash: "\<forall>k \<in> fst ` set (module_call_keywords mgr kw a b c e).
                extra_kwargs kw k = None"
    and args: "args = map_of (module_call_keywords mgr kw a b c e) ++ extra_kwargs kw"
    by (rule conjunct1, rule conjunct2)
  from clash have free: "\<forall>k \<in> set module_own_keywords. kw k = None"
    by (simp only: no_clash_iff)
  show ?thesis
    by (simp add: args map_add_def module_call_keywords_own own_keyword_free [OF free])
qed

section \<open>The constructor\<close>

text \<open>
  What every instance the constructor returns stores under \<^verbatim>\<open>_module_kwargs\<close>.
\<close>

lemma SCVI_init_module_kwargs:
  assumes "fst (SCVI_init lib store adata_arg kw) = Inr self"
  shows "module_kwargs self = map_of (named_params kw) ++ extra_kwargs kw"
  using assms
  by (auto simp add: SCVI_init_def base_init_def new_instance_def Let_def
      split: option.splits sum.splits if_splits prod.splits)

text \<open>
  The constructor on a registered dataset, with the values of its local variables
  written in terms of the manager.
\<close>

lemma SCVI_init_eager:
  assumes "store (adata_id d) = Some mgr"
  shows "SCVI_init lib store (Some d) kw =
     (let n_cats_per_cov =
            (if CAT_COVS_KEY \<in> data_registry mgr
             then PyList (map (\<lambda>n. PyInt (int n))
                    (n_cats_per_key (get_state_registry mgr CAT_COVS_KEY)))
             else PyNone);
          init_library = (SIZE_FACTOR_KEY \<notin> data_registry mgr \<and>
                            mgr_minified_data_type mgr \<noteq> Some LATENT_POSTERIOR);
          prior = init_library_size lib mgr (n_batch (summary_stats mgr));
          evs = (if init_library then [LibrarySizeInit] else [])
      in case call_kwargs
                (module_call_keywords mgr kw n_cats_per_cov (SIZE_FACTOR_KEY \<in> data_registry mgr)
                   (if init_library then PyArray (fst prior) else PyNone)
                   (if init_library then PyArray (snd prior) else PyNone))
                (extra_kwargs kw) of
           Inl e \<Rightarrow> (Inl e, evs)
         | Inr args \<Rightarrow>
             (case module_cls_error lib args of
                Some e \<Rightarrow> (Inl e, evs)
              | None \<Rightarrow>
                  (Inr ((new_instance (Some d) (Some mgr) False)
                          \<lparr> module_kwargs := map_of (named_params kw) ++ extra_kwargs kw,
                            model_summary_string := summary_string lib kw,
                            module := Some \<lparr> init_args = args,
                                       vae_minified_data_type = mgr_minified_data_type mgr \<rparr>,
                            init_params := (map_of (named_params kw), extra_kwargs kw) \<rparr>),
                   evs @ [ModuleConstructed])))"
  using assms
  by (simp add: SCVI_init_def base_init_def new_instance_def minified_data_type_def Let_def
      split_def cong: sum.case_cong option.case_cong)

text \<open>
  With no repeated keyword the module class is called with \<open>module_call_args\<close>; when
  it accepts them, the constructor returns.
\<close>

lemma call_kwargs_module_call_args:
  assumes free: "\<forall>k \<in> set module_own_keywords. kw k = None"
  shows "call_kwargs
           (module_call_keywords mgr kw
              (if CAT_COVS_KEY \<in> data_registry mgr
               then PyList (map (\<lambda>n. PyInt (int n))
                      (n_cats_per_key (get_state_registry mgr CAT_COVS_KEY)))
               else PyNone)
              (SIZE_FACTOR_KEY \<in> data_registry mgr)
              (if SIZE_FACTOR_KEY \<notin> data_registry mgr \<and>
                  mgr_minified_data_type mgr \<noteq> Some LATENT_POSTERIOR
               then PyArray (fst (init_library_size lib mgr (n_batch (summary_stats mgr))))
               else PyNone)
              (if SIZE_FACTOR_KEY \<notin> data_registry mgr \<and>
                  mgr_minified_data_type mgr \<noteq> Some LATENT_POSTERIOR
               then PyArray (snd (init_library_size lib mgr (n_batch (summary_stats mgr))))
               else PyNone))
           (extra_kwargs kw) = Inr (module_call_args lib mgr kw)"
  unfolding module_call_args_def Let_def
  by (rule call_kwargs_module_ok [OF free])

lemma SCVI_init_eager_ok:
  assumes reg: "store (adata_id d) = Some mgr"
      and free: "\<forall>k \<in> set module_own_keywords. kw k = None"
      and accept: "module_cls_error lib (module_call_args lib mgr kw) = None"
  shows "SCVI_init lib store (Some d) kw =
     (Inr ((new_instance (Some d) (Some mgr) False)
             \<lparr> module_kwargs := map_of (named_params kw) ++ extra_kwargs kw,
               model_summary_string := summary_string lib kw,
               module := Some \<lparr> init_args = module_call_args lib mgr kw,
                          vae_minified_data_type = mgr_minified_data_type mgr \<rparr>,
               init_params := (map_of (named_params kw), extra_kwargs kw) \<rparr>),
      (if SIZE_FACTOR_KEY \<notin> data_registry mgr \<and>
          mgr_minified_data_type mgr \<noteq> Some LATENT_POSTERIOR
       then [LibrarySizeInit] else []) @ [ModuleConstructed])"
  unfolding SCVI_init_eager [where store = store and d = d, OF reg] Let_def
  by (simp only: call_kwargs_module_call_args [OF free] sum.case accept option.case)

lemma SCVI_init_eager_success:
  assumes "fst (SCVI_init lib store (Some d) kw) = Inr self"
  shows "\<exists>mgr m. store (adata_id d) = Some mgr \<and> module self = Some m \<and> adata self = Some d
           \<and> \<not> is_trained self \<and> \<not> module_init_on_train self"
proof (cases "store (adata_id d)")
  case None
  with assms show ?thesis by (simp add: SCVI_init_def base_init_def)
next
  case (Some mgr)
  from assms show ?thesis
    unfolding SCVI_init_eager [where store = store and d = d, OF Some] Let_def
    by (auto split: sum.splits option.splits simp add: new_instance_def Some)
qed

lemma SCVI_init_module_args:
  assumes ok: "fst (SCVI_init lib store adata_arg kw) = Inr self"
      and m: "module self = Some m"
      and name: "name \<in> set init_param_names"
  shows "init_args m name = map_of (named_params kw) name"
proof (cases adata_arg)
  case None
  with ok m show ?thesis
    by (auto simp add: SCVI_init_def base_init_def new_instance_def Let_def)
next
  case (Some d)
  show ?thesis
  proof (cases "store (adata_id d)")
    case None
    with ok Some show ?thesis
      by (simp add: SCVI_init_def base_init_def)
  next
    case (Some mgr)
    note eager = SCVI_init_eager [where store = store and d = d and lib = lib and kw = kw, OF Some]
    from ok \<open>adata_arg = Some d\<close>
    have "fst (SCVI_init lib store (Some d) kw) = Inr self" by simp
    with m name show ?thesis
      unfolding eager Let_def
      by (auto split: sum.splits option.splits
          simp add: call_kwargs_Inr_iff map_add_def module_call_keywords_named)
  qed
qed

text \<open>The arguments of the module class, key by key.\<close>

lemma module_call_args_own:
  assumes free: "\<forall>k \<in> set module_own_keywords. kw k = None"
  shows "module_call_args lib mgr kw ''n_input'' =
           Some (PyInt (int (n_vars (summary_stats mgr))))"
    "module_call_args lib mgr kw ''n_batch'' =
           Some (PyInt (int (n_batch (summary_stats mgr))))"
    "module_call_args lib mgr kw ''n_labels'' =
           Some (PyInt (int (n_labels (summary_stats mgr))))"
    "module_call_args lib mgr kw ''n_continuous_cov'' =
           Some (PyInt (int (case n_extra_continuous_covs (summary_stats mgr) of
                               None \<Rightarrow> 0 | Some n \<Rightarrow> n)))"
    "module_call_args lib mgr kw ''n_cats_per_cov'' =
           Some (if CAT_COVS_KEY \<in> data_registry mgr
                 then PyList (map (\<lambda>n. PyInt (int n))
                        (n_cats_per_key (get_state_registry mgr CAT_COVS_KEY)))
                 else PyNone)"
    "module_call_args lib mgr kw ''library_log_means'' =
           Some (if SIZE_FACTOR_KEY \<notin> data_registry mgr \<and>
                    mgr_minified_data_type mgr \<noteq> Some LATENT_POSTERIOR
                 then PyArray (fst (init_library_size lib mgr (n_batch (summary_stats mgr))))
                 else PyNone)"
    "module_call_args lib mgr kw ''library_log_vars'' =
           Some (if SIZE_FACTOR_KEY \<notin> data_registry mgr \<and>
                    mgr_minified_data_type mgr \<noteq> Some LATENT_POSTERIOR
                 then PyArray (snd (init_library_size lib mgr (n_batch (summary_stats mgr))))
                 else PyNone)"
  by (simp_all add: module_call_args_def Let_def map_add_def module_call_keywords_own
      own_keyword_free [OF free])

lemma module_call_args_rest:
  assumes "k \<notin> set module_own_keywords"
  shows "module_call_args lib mgr kw k = (map_of (named_params kw) ++ extra_kwargs kw) k"
proof (cases "k \<in> set init_param_names")
  case True
  have "map_of (module_call_keywords mgr kw a b c e) k = map_of (named_params kw) k"
    for a b c e
    using True by (rule module_call_keywords_named)
  then show ?thesis
    by (simp add: module_call_args_def Let_def map_add_def split: option.splits)
next
  case False
  have "map_of (named_params kw) k = None"
    using False by (simp add: named_params_def init_param_names_def)
  moreover have "map_of (module_call_keywords mgr kw a b c e) k = None" for a b c e
    using assms False by (rule module_call_keywords_other)
  ultimately show ?thesis
    by (simp add: module_call_args_def Let_def map_add_def split: option.splits)
qed

text \<open>The example registration stores the example manager.\<close>

lemma example_store_registered:
  "example_store (adata_id example_adata) = Some example_manager"
  by (simp add: example_store_def setup_anndata_def new_manager_def example_library_def
      example_register_fields_def example_args_def example_adata_def example_manager_def
      get_adata_minify_type_def register_manager_def AnnDataManager_def Let_def)

lemma example_manager_simps:
  "data_registry example_manager = {X_KEY, BATCH_KEY, LABELS_KEY}"
  "summary_stats example_manager =
     \<lparr> n_vars = 2000, n_batch = 3, n_labels = 4, n_extra_continuous_covs = None \<rparr>"
  "mgr_minified_data_type example_manager = None"
  by (simp_all add: example_manager_def AnnDataManager_def)

lemma no_keywords_free: "\<forall>k \<in> set module_own_keywords. (Map.empty :: kwargs) k = None"
  by simp

lemma example_accepts:
  "module_cls_error example_library
     (module_call_args example_library example_manager Map.empty) = None"
proof -
  have "module_call_args example_library example_manager Map.empty ''n_latent'' =
          Some (PyInt 10)"
    by (simp add: module_call_args_rest module_own_keywords_def map_add_def
        named_params_lookup param_def extra_kwargs_def)
  then show ?thesis
    by (simp add: example_library_def example_module_cls_error_def)
qed

lemma example_init_ok:
  "\<exists>self evs.
     SCVI_init example_library example_store (Some example_adata) Map.empty = (Inr self, evs)"
  unfolding SCVI_init_eager_ok [where store = example_store and d = example_adata,
      OF example_store_registered no_keywords_free example_accepts]
  by simp

subsection \<open>Construction without a dataset\<close>



subsection \<open>Construction with a registered dataset\<close>

text \<open>
  C4, as amended: a construction with a registered dataset whose extra keywords repeat
  none of the keywords the constructor passes to the module class itself, and whose
  arguments the module class accepts, returns an instance and constructs exactly one
  module. The module receives the feature, batch and label counts of the registration's
  summary statistics, the number of continuous covariates (zero when the statistics have
  none), the categories per categorical covariate (\<^verbatim>\<open>None\<close> when none is registered),
  for each prior parameter of the library size either \<^verbatim>\<open>None\<close> or what
  \<^verbatim>\<open>_init_library_size\<close> computes from the manager, and the stored configuration for
  every other keyword.
\<close>

theorem SCVI_init_registered:
  assumes reg: "store (adata_id d) = Some mgr"
      and free: "\<forall>k \<in> set module_own_keywords. kw k = None"
      and accept: "module_cls_error lib (module_call_args lib mgr kw) = None"
  shows "\<exists>self args evs.
      SCVI_init lib store (Some d) kw = (Inr self, evs)
    \<and> count_list evs ModuleConstructed = 1
    \<and> module self =
        Some \<lparr> init_args = args, vae_minified_data_type = mgr_minified_data_type mgr \<rparr>
    \<and> args = module_call_args lib mgr kw
    \<and> args ''n_input'' = Some (PyInt (int (n_vars (summary_stats mgr))))
    \<and> args ''n_batch'' = Some (PyInt (int (n_batch (summary_stats mgr))))
    \<and> args ''n_labels'' = Some (PyInt (int (n_labels (summary_stats mgr))))
    \<and> args ''n_continuous_cov'' =
        Some (PyInt (int (case n_extra_continuous_covs (summary_stats mgr) of
                            None \<Rightarrow> 0 | Some n \<Rightarrow> n)))
    \<and> args ''n_cats_per_cov'' =
        Some (if CAT_COVS_KEY \<in> data_registry mgr
              then PyList (map (\<lambda>n. PyInt (int n))
                     (n_cats_per_key (get_state_registry mgr CAT_COVS_KEY)))
              else PyNone)
    \<and> args ''library_log_means'' \<in>
        {Some PyNone,
         Some (PyArray (fst (init_library_size lib mgr (n_batch (summary_stats mgr)))))}
    \<and> args ''library_log_vars'' \<in>
        {Some PyNone,
         Some (PyArray (snd (init_library_size lib mgr (n_batch (summary_stats mgr)))))}
    \<and> module_kwargs self = map_of (named_params kw) ++ extra_kwargs kw
    \<and> (\<forall>k. k \<notin> set module_own_keywords \<longrightarrow> args k = module_kwargs self k)"
  unfolding SCVI_init_eager_ok [where store = store and d = d, OF reg free accept]
  by (simp add: new_instance_def module_call_args_own [OF free] module_call_args_rest)

theorem SCVI_init_registered_witness:
  "\<exists>self args evs.
      SCVI_init example_library example_store (Some example_adata) Map.empty = (Inr self, evs)
    \<and> count_list evs ModuleConstructed = 1
    \<and> module self = Some \<lparr> init_args = args, vae_minified_data_type = None \<rparr>
    \<and> args ''n_input'' = Some (PyInt 2000)
    \<and> args ''n_batch'' = Some (PyInt 3)
    \<and> args ''n_labels'' = Some (PyInt 4)
    \<and> args ''n_continuous_cov'' = Some (PyInt 0)
    \<and> args ''n_cats_per_cov'' = Some PyNone
    \<and> args ''n_latent'' = Some (PyInt 10)"
proof -
  from SCVI_init_registered [where store = example_store and d = example_adata
      and lib = example_library,
      OF example_store_registered no_keywords_free example_accepts]
  obtain self args evs where
    "SCVI_init example_library example_store (Some example_adata) Map.empty = (Inr self, evs)"
    "count_list evs ModuleConstructed = 1"
    "module self = Some \<lparr> init_args = args,
                           vae_minified_data_type = mgr_minified_data_type example_manager \<rparr>"
    "args ''n_input'' = Some (PyInt (int (n_vars (summary_stats example_manager))))"
    "args ''n_batch'' = Some (PyInt (int (n_batch (summary_stats example_manager))))"
    "args ''n_labels'' = Some (PyInt (int (n_labels (summary_stats example_manager))))"
    "args ''n_continuous_cov'' =
       Some (PyInt (int (case n_extra_continuous_covs (summary_stats example_manager) of
                           None \<Rightarrow> 0 | Some n \<Rightarrow> n)))"
    "args ''n_cats_per_cov'' =
       Some (if CAT_COVS_KEY \<in> data_registry example_manager
             then PyList (map (\<lambda>n. PyInt (int n))
                    (n_cats_per_key (get_state_registry example_manager CAT_COVS_KEY)))
             else PyNone)"
    "module_kwargs self = map_of (named_params Map.empty) ++ extra_kwargs Map.empty"
    "\<forall>k. k \<notin> set module_own_keywords \<longrightarrow> args k = module_kwargs self k"
    by blast
  moreover from this have "args ''n_latent'' = Some (PyInt 10)"
    by (simp add: module_own_keywords_def map_add_def named_params_lookup param_def
        extra_kwargs_def)
  ultimately show ?thesis
    by (simp add: example_manager_simps)
qed

text \<open>
  C4 as first stated, for every construction with a registered dataset, fails on
  a call that repeats one of those keywords: with the example registered and
  \<^verbatim>\<open>n_input=5\<close> among the extra keywords, the call of the module class raises
  \<^verbatim>\<open>TypeError\<close> and no module is constructed.
\<close>

theorem SCVI_init_repeated_keyword_counterexample:
  "example_store (adata_id example_adata) \<noteq> None \<and>
   SCVI_init example_library example_store (Some example_adata) [''n_input'' \<mapsto> PyInt 5] =
     (Inl (TypeError ''n_input''), [LibrarySizeInit])"
proof -
  have "call_kwargs (module_call_keywords mgr [''n_input'' \<mapsto> PyInt 5] a b c e)
          (extra_kwargs [''n_input'' \<mapsto> PyInt 5]) = Inl (TypeError ''n_input'')"
    for mgr a b c e
    by (simp add: call_kwargs_def module_call_keywords_def named_params_def
        extra_kwargs_def init_param_names_def)
  then show ?thesis
    unfolding SCVI_init_eager [where store = example_store and d = example_adata,
        OF example_store_registered] Let_def
    by (simp add: example_store_registered example_manager_simps)
qed

text \<open>
  A call whose arguments the module class rejects returns no instance either: in the
  example, a latent dimensionality of -1.
\<close>

lemma example_module_class_rejects:
  "SCVI_init example_library example_store (Some example_adata) [''n_latent'' \<mapsto> PyInt (- 1)] =
     (Inl (ValueError ''n_latent''), [LibrarySizeInit])"
proof -
  let ?kw = "[''n_latent'' \<mapsto> PyInt (- 1)]"
  have free: "\<forall>k \<in> set module_own_keywords. ?kw k = None"
    by (simp add: module_own_keywords_def)
  have "module_call_args example_library example_manager ?kw ''n_latent'' = Some (PyInt (- 1))"
    by (simp add: module_call_args_rest module_own_keywords_def map_add_def
        named_params_lookup param_def extra_kwargs_def init_param_names_def)
  then have rejects: "module_cls_error example_library
                        (module_call_args example_library example_manager ?kw) =
                      Some (ValueError ''n_latent'')"
    by (simp add: example_library_def example_module_cls_error_def)
  show ?thesis
    unfolding SCVI_init_eager [where store = example_store and d = example_adata,
        OF example_store_registered] Let_def
    by (simp only: call_kwargs_module_call_args [OF free] sum.case rejects option.case)
       (simp add: example_manager_simps)
qed

subsection \<open>Construction with a dataset that was never registered\<close>

text \<open>
  A registration that is of another dataset, or that fails, leaves what the store holds
  for a dataset; so does a sequence of such registrations.
\<close>

lemma setup_anndata_other:
  assumes "leaves_unregistered lib d (d', a)"
  shows "snd (setup_anndata lib store d' a) (adata_id d) = store (adata_id d)"
  using assms
  by (auto simp add: leaves_unregistered_def setup_anndata_def register_manager_def Let_def
      split: sum.splits)

lemma register_all_other:
  assumes "list_all (leaves_unregistered lib d) regs"
  shows "register_all lib store regs (adata_id d) = store (adata_id d)"
  using assms
proof (induction regs arbitrary: store)
  case Nil
  show ?case by simp
next
  case (Cons r regs)
  obtain d' a where r: "r = (d', a)" by (cases r)
  with Cons.prems have this_one: "leaves_unregistered lib d (d', a)"
    and rest: "list_all (leaves_unregistered lib d) regs"
    by simp_all
  show ?case
    by (simp add: r Cons.IH [OF rest] setup_anndata_other [OF this_one])
qed

text \<open>
  C6: after any sequence of registrations none of which registered the dataset \<open>d\<close>
  (each was of another dataset, or failed), the construction of a model with \<open>d\<close>
  fails with a configuration error, before anything else happens.
\<close>

theorem SCVI_init_unregistered:
  assumes "list_all (leaves_unregistered lib d) regs"
  shows "SCVI_init lib (register_all lib Map.empty regs) (Some d) kw =
           (Inl (ConfigurationError ''setup_anndata''), [])"
proof -
  have "register_all lib Map.empty regs (adata_id d) = None"
    using register_all_other [OF assms, of Map.empty] by simp
  then show ?thesis
    by (simp add: SCVI_init_def base_init_def)
qed

text \<open>
  On the example: the example dataset is registered, a second dataset is rejected for
  its batch column, and the construction with the second dataset fails.
\<close>

theorem SCVI_init_unregistered_witness:
  "SCVI_init example_library
     (register_all example_library Map.empty
        [ (example_adata, example_args),
          (example_adata \<lparr> adata_id := 2 \<rparr>, example_args \<lparr> batch_key := Some ''sample'' \<rparr>) ])
     (Some (example_adata \<lparr> adata_id := 2 \<rparr>)) Map.empty =
   (Inl (ConfigurationError ''setup_anndata''), [])"
proof -
  have "list_all (leaves_unregistered example_library (example_adata \<lparr> adata_id := 2 \<rparr>))
          [ (example_adata, example_args),
            (example_adata \<lparr> adata_id := 2 \<rparr>, example_args \<lparr> batch_key := Some ''sample'' \<rparr>) ]"
    by (simp add: leaves_unregistered_def example_adata_def example_library_def
        example_register_fields_def new_manager_def AnnDataManager_def example_args_def Let_def)
  from SCVI_init_unregistered [OF this] show ?thesis .
qed

subsection \<open>Defaults\<close>

text \<open>
  C9: in every construction that returns an instance, each architecture parameter the
  call omits has its default recorded: \<^verbatim>\<open>n_hidden\<close> 128, \<^verbatim>\<open>n_latent\<close> 10,
  \<^verbatim>\<open>n_layers\<close> 1, \<^verbatim>\<open>dropout_rate\<close> 0.1, \<^verbatim>\<open>dispersion\<close> "gene",
  \<^verbatim>\<open>gene_likelihood\<close> "zinb", \<^verbatim>\<open>latent_distribution\<close> "normal". The value is stored
  in \<^verbatim>\<open>_module_kwargs\<close>, and the module, when the constructor builds one, is
  constructed with it.
\<close>

theorem SCVI_init_defaults:
  assumes "fst (SCVI_init lib store adata_arg kw) = Inr self"
  shows "(kw ''n_hidden'' = None \<longrightarrow> stored_and_forwarded self ''n_hidden'' (PyInt 128)) \<and>
         (kw ''n_latent'' = None \<longrightarrow> stored_and_forwarded self ''n_latent'' (PyInt 10)) \<and>
         (kw ''n_layers'' = None \<longrightarrow> stored_and_forwarded self ''n_layers'' (PyInt 1)) \<and>
         (kw ''dropout_rate'' = None \<longrightarrow>
            stored_and_forwarded self ''dropout_rate'' (PyFloat 0.1)) \<and>
         (kw ''dispersion'' = None \<longrightarrow>
            stored_and_forwarded self ''dispersion'' (PyStr ''gene'')) \<and>
         (kw ''gene_likelihood'' = None \<longrightarrow>
            stored_and_forwarded self ''gene_likelihood'' (PyStr ''zinb'')) \<and>
         (kw ''latent_distribution'' = None \<longrightarrow>
            stored_and_forwarded self ''latent_distribution'' (PyStr ''normal''))"
proof -
  have kwargs: "module_kwargs self = map_of (named_params kw) ++ extra_kwargs kw"
    by (rule SCVI_init_module_kwargs [OF assms])
  have fwd: "stored_and_forwarded self name v"
    if "name \<in> set init_param_names" and "map_of (named_params kw) name = Some v"
    for name v
    using that kwargs SCVI_init_module_args [OF assms]
    by (auto simp add: stored_and_forwarded_def map_add_def split: option.splits)
  show ?thesis
    by (intro conjI impI fwd) (simp_all add: init_param_names_def named_params_lookup param_def)
qed

theorem SCVI_init_defaults_witness:
  "\<exists>self. fst (SCVI_init example_library example_store (Some example_adata) Map.empty) = Inr self
     \<and> module self \<noteq> None
     \<and> stored_and_forwarded self ''n_hidden'' (PyInt 128)
     \<and> stored_and_forwarded self ''n_latent'' (PyInt 10)
     \<and> stored_and_forwarded self ''n_layers'' (PyInt 1)
     \<and> stored_and_forwarded self ''dropout_rate'' (PyFloat 0.1)
     \<and> stored_and_forwarded self ''dispersion'' (PyStr ''gene'')
     \<and> stored_and_forwarded self ''gene_likelihood'' (PyStr ''zinb'')
     \<and> stored_and_forwarded self ''latent_distribution'' (PyStr ''normal'')"
proof -
  from example_init_ok obtain self where
    ok: "fst (SCVI_init example_library example_store (Some example_adata) Map.empty) = Inr self"
    by force
  from SCVI_init_eager_success [OF ok] have "module self \<noteq> None" by auto
  with ok SCVI_init_defaults [OF ok] show ?thesis by auto
qed

subsection \<open>The prior of the library size\<close>

text \<open>
  C10: in a construction with a registered dataset, \<^verbatim>\<open>_init_library_size\<close> is called if
  and only if the size-factor key is not in the data registry of the registration and
  the minification type is not the latent posterior. A module that is constructed
  receives the two arrays the call computed from the manager in that case, and
  \<^verbatim>\<open>None\<close> for both parameters otherwise.
\<close>

theorem SCVI_init_library_size:
  assumes reg: "store (adata_id d) = Some mgr"
  shows "let init_library = (SIZE_FACTOR_KEY \<notin> data_registry mgr \<and>
                               mgr_minified_data_type mgr \<noteq> Some LATENT_POSTERIOR);
             prior = init_library_size lib mgr (n_batch (summary_stats mgr));
             result = SCVI_init lib store (Some d) kw
         in (LibrarySizeInit \<in> set (snd result) \<longleftrightarrow> init_library) \<and>
            (\<forall>self. fst result = Inr self \<longrightarrow>
               (\<exists>m. module self = Some m \<and>
                  init_args m ''library_log_means'' =
                    Some (if init_library then PyArray (fst prior) else PyNone) \<and>
                  init_args m ''library_log_vars'' =
                    Some (if init_library then PyArray (snd prior) else PyNone)))"
proof -
  have shape: "(LibrarySizeInit \<in> set (snd r) \<longleftrightarrow> c) \<and>
      (\<forall>self. fst r = Inr self \<longrightarrow>
         (\<exists>m. module self = Some m \<and> init_args m ''library_log_means'' = Some a \<and>
              init_args m ''library_log_vars'' = Some b))"
    if r: "r = (case call of
                  Inl e \<Rightarrow> (Inl e, evs)
                | Inr args \<Rightarrow>
                    (case module_cls_error lib args of
                       Some e \<Rightarrow> (Inl e, evs)
                     | None \<Rightarrow> (Inr (inst args), evs @ [ModuleConstructed])))"
      and evs: "LibrarySizeInit \<in> set evs \<longleftrightarrow> c"
      and inst: "\<And>args. call = Inr args \<Longrightarrow>
                   \<exists>m. module (inst args) = Some m \<and>
                       init_args m ''library_log_means'' = Some a \<and>
                       init_args m ''library_log_vars'' = Some b"
    for r c a b call evs and inst :: "kwargs \<Rightarrow> scvi_model"
  proof (cases call)
    case (Inl e)
    with r evs show ?thesis by simp
  next
    case (Inr args)
    show ?thesis
    proof (cases "module_cls_error lib args")
      case None
      with r evs Inr inst [OF Inr] show ?thesis by simp
    next
      case (Some e)
      with r evs Inr show ?thesis by simp
    qed
  qed
  show ?thesis
    unfolding Let_def
    by (rule shape [OF SCVI_init_eager [where store = store and d = d, OF reg, unfolded Let_def]])
       (auto dest: call_kwargs_module_args)
qed

theorem SCVI_init_library_size_witness:
  "LibrarySizeInit \<in> set (snd (SCVI_init example_library example_store (Some example_adata)
                                 Map.empty)) \<and>
   (\<exists>self m.
      fst (SCVI_init example_library example_store (Some example_adata) Map.empty) = Inr self \<and>
      module self = Some m \<and>
      init_args m ''library_log_means'' = Some (PyArray [[0], [0], [0]]) \<and>
      init_args m ''library_log_vars'' = Some (PyArray [[1], [1], [1]]))"
proof -
  from example_init_ok obtain self where
    ok: "fst (SCVI_init example_library example_store (Some example_adata) Map.empty) = Inr self"
    by force
  have prior: "init_library_size example_library example_manager 3 = ([[0], [0], [0]], [[1], [1], [1]])"
    by (simp add: example_library_def numeral_3_eq_3)
  from SCVI_init_library_size [where store = example_store and d = example_adata
      and lib = example_library and kw = Map.empty, OF example_store_registered] ok
  show ?thesis
    by (simp add: Let_def example_manager_simps prior)
qed

section \<open>Registration\<close>

text \<open>
  C3: when the registration of the fields on a dataset fails, naming the role or column
  it rejects, \<^verbatim>\<open>setup_anndata\<close> signals the error with that name and the store of
  managers is what it was before the call: nothing is stored for the dataset.
\<close>

theorem setup_anndata_failure:
  assumes "register_fields lib (new_manager lib d a) d (setup_kwargs a) = Inl name"
  shows "setup_anndata lib store d a = (Inl (RegistrationError name), store)"
  using assms by (simp add: setup_anndata_def Let_def)

lemma example_rejects_sample:
  "register_fields example_library
     (new_manager example_library example_adata (example_args \<lparr> batch_key := Some ''sample'' \<rparr>))
     example_adata (setup_kwargs (example_args \<lparr> batch_key := Some ''sample'' \<rparr>)) = Inl ''sample''"
  by (simp add: example_library_def example_register_fields_def new_manager_def
      AnnDataManager_def example_args_def Let_def)

theorem setup_anndata_failure_witness:
  "setup_anndata example_library example_store example_adata
     (example_args \<lparr> batch_key := Some ''sample'' \<rparr>)
   = (Inl (RegistrationError ''sample''), example_store)"
  using setup_anndata_failure [OF example_rejects_sample] .

section \<open>Training and extraction\<close>

text \<open>
  C1: for a model the constructor built from a registered dataset \<open>d\<close>, with a
  non-negative integer \<open>k\<close> as its latent dimensionality (\<^verbatim>\<open>n_latent\<close>, 10 when the
  call omits it), the extraction of the embedding fails before training; training
  succeeds, and afterwards the extraction returns an array of \<open>n_obs d\<close> rows with \<open>k\<close>
  entries each.
\<close>

theorem latent_representation_shape:
  assumes ok: "SCVI_init lib store (Some d) kw = (Inr self, evs)"
      and k: "param kw ''n_latent'' (PyInt 10) = PyInt k" "0 \<le> k"
  shows "get_latent_representation lib self None = Inl NotTrainedError \<and>
         (\<exists>self' arr. train dm self = Inr self' \<and>
            get_latent_representation lib self' None = Inr arr \<and>
            length arr = n_obs d \<and> (\<forall>row \<in> set arr. length row = nat k))"
proof -
  from ok have f: "fst (SCVI_init lib store (Some d) kw) = Inr self" by simp
  from SCVI_init_eager_success [OF f] obtain m where
    m: "module self = Some m" and d: "adata self = Some d"
    and nt: "\<not> is_trained self" and nd: "\<not> module_init_on_train self"
    by blast
  have "init_args m ''n_latent'' = map_of (named_params kw) ''n_latent''"
    by (rule SCVI_init_module_args [OF f m]) (simp add: init_param_names_def)
  with k have lat: "init_args m ''n_latent'' = Some (PyInt k)"
    by (simp add: named_params_lookup)
  have before: "get_latent_representation lib self None = Inl NotTrainedError"
    using nt by (simp add: get_latent_representation_def)
  have tr: "train dm self = Inr (self \<lparr> is_trained := True \<rparr>)"
    using nd by (simp add: train_def)
  have after: "get_latent_representation lib (self \<lparr> is_trained := True \<rparr>) None =
      Inr (map (\<lambda>i. map (\<lambda>j. encode lib m d i j) [0..<nat k]) [0..<n_obs d])"
    using m d lat k by (simp add: get_latent_representation_def)
  show ?thesis
    using before tr after by simp
qed

theorem latent_representation_shape_witness:
  "\<exists>self evs.
     SCVI_init example_library example_store (Some example_adata) Map.empty = (Inr self, evs) \<and>
     get_latent_representation example_library self None = Inl NotTrainedError \<and>
     (\<exists>self' arr. train None self = Inr self' \<and>
        get_latent_representation example_library self' None = Inr arr \<and>
        length arr = 500 \<and> (\<forall>row \<in> set arr. length row = 10))"
proof -
  from example_init_ok obtain self evs where
    ok: "SCVI_init example_library example_store (Some example_adata) Map.empty = (Inr self, evs)"
    by blast
  have k: "param Map.empty ''n_latent'' (PyInt 10) = PyInt 10" "(0::int) \<le> 10"
    by (simp_all add: param_def)
  from latent_representation_shape [OF ok k, of None] ok show ?thesis
    by (simp add: example_adata_def)
qed






end
